theory Spec2Isabelle
  imports Main
begin

section \<open>JavaScript values\<close>

text \<open>
  A JavaScript string is modelled as a \<^typ>\<open>string\<close> whose characters are the code units
  0 to 255 (the Latin-1 range). On that range the built-ins used by the pages are exact:
  \<^verbatim>\<open>String.prototype.trim\<close> strips the white space and line terminators TAB, LF, VT, FF, CR,
  SPACE and NBSP from both ends, and \<^verbatim>\<open>String.prototype.toLowerCase\<close> adds 32 to the
  code units of A to Z and of the upper-case Latin-1 letters 0xC0 to 0xDE (the
  multiplication sign 0xD7 apart). Code units above 255 are outside the model.
\<close>

definition isWhiteSpace :: "char \<Rightarrow> bool" where
  "isWhiteSpace c = (of_char c \<in> set [9, 10, 11, 12, 13, 32, 160 :: nat])"

definition trim :: "string \<Rightarrow> string" where
  "trim s = rev (dropWhile isWhiteSpace (rev (dropWhile isWhiteSpace s)))"

definition toLowerCase_char :: "char \<Rightarrow> char" where
  "toLowerCase_char c =
     (let n = (of_char c :: nat)
      in if (65 \<le> n \<and> n \<le> 90) \<or> (192 \<le> n \<and> n \<le> 222 \<and> n \<noteq> 215)
         then char_of (n + 32) else c)"

definition toLowerCase :: "string \<Rightarrow> string" where
  "toLowerCase s = map toLowerCase_char s"

text \<open>
  \<^verbatim>\<open>!x\<close> for \<^verbatim>\<open>x: string | undefined\<close>: both \<^verbatim>\<open>undefined\<close> and the empty string are
  falsy. An array is truthy even when it is empty, so \<^verbatim>\<open>!xs\<close> for
  \<^verbatim>\<open>xs: T[] | undefined\<close> holds for \<^verbatim>\<open>undefined\<close> only; in the checks below
  \<^verbatim>\<open>!xs || xs.length === 0\<close> is a case distinction on the optional array.
\<close>

definition not_string :: "string option \<Rightarrow> bool" where
  "not_string x = (case x of None \<Rightarrow> True | Some s \<Rightarrow> s = [])"

text \<open>
  A reactive query yields \<^verbatim>\<open>undefined\<close> while it loads, \<^verbatim>\<open>null\<close> when the document
  is absent, and the document otherwise.
\<close>

datatype 'a query = Loading | Missing | Found 'a

text \<open>
  Modelled from the spec: the type \<^verbatim>\<open>Id\<close> comes from the generated data model of the
  backend, which is not among the sources. Identifiers are opaque references; the backend
  never issues an empty one, so \<^verbatim>\<open>!x?._id\<close> holds exactly when the document \<^verbatim>\<open>x\<close>
  is \<^verbatim>\<open>null\<close> or \<^verbatim>\<open>undefined\<close>.
\<close>

datatype doc_id = DocId nat


section \<open>The portfolio page: data\<close>

record SocialLink =
  platform :: string
  url :: string

record DesignerRecord =
  designer_doc_id :: doc_id
  user_id :: doc_id
  contact_number :: "string option"
  address :: "string option"
  portfolio_id :: "doc_id option"

record PortfolioRecord =
  portfolio_doc_id :: doc_id
  designer_id :: doc_id
  title :: "string option"
  description :: "string option"
  specialization :: "string option"
  skills :: "string list option"
  social_links :: "SocialLink list option"

text \<open>The two local forms (\<^verbatim>\<open>designerForm\<close> and \<^verbatim>\<open>portfolioForm\<close>).\<close>

record DesignerForm =
  form_contact_number :: string
  form_address :: string

record PortfolioForm =
  form_title :: string
  form_description :: string
  form_specialization :: string
  form_skills :: "string list"
  form_social_links :: "SocialLink list"

text \<open>
  The effects of the page. A call of \<^verbatim>\<open>alert\<close> is recorded by its message:
  \<open>ContactInfoUpdated\<close> is the confirmation "Contact info updated", \<open>PortfolioSaved\<close> the
  confirmation "Portfolio saved", and \<open>PortfolioIncomplete\<close> the warning "Please complete
  all portfolio fields before saving.". A call of a backend mutation is recorded with
  the arguments it was given: \<open>UpdateDesigner designerId contact_number address\<close> and
  \<open>UpdatePortfolio portfolioId title description specialization skills social_links\<close>.
\<close>

datatype alert = ContactInfoUpdated | PortfolioIncomplete | PortfolioSaved

datatype mutation =
    UpdateDesigner doc_id string string
  | UpdatePortfolio doc_id string string string "string list" "SocialLink list"

text \<open>
  A mutation returns a promise, which the handler awaits with no \<^verbatim>\<open>try\<close> around it. The
  promise is fulfilled (\<open>Fulfilled\<close>), is rejected (\<open>Failed\<close>) or never settles
  (\<open>Unsettled\<close>). The backend is not part of the page: the functions \<^verbatim>\<open>updateDesigner\<close>
  and \<^verbatim>\<open>updatePortfolio\<close> obtained from \<^verbatim>\<open>useMutation\<close> are parameters of the handlers,
  each telling how the call with given arguments settles. The same three outcomes
  describe the promise of an \<^verbatim>\<open>async\<close> handler itself.
\<close>

datatype outcome = Fulfilled | Failed | Unsettled

type_synonym backend = "mutation \<Rightarrow> outcome"

text \<open>
  The state of the component: the two query results, the local React state, and the log
  of effects issued so far. Each event handler runs on the committed state of the last
  render and returns the next one.
\<close>

record page =
  designerProfile :: "DesignerRecord query"
  portfolio :: "PortfolioRecord list query"
  designerForm :: DesignerForm
  portfolioForm :: PortfolioForm
  newSkill :: string
  newSocial :: SocialLink
  editContact :: bool
  editPortfolio :: bool
  mutations :: "mutation list"
  alerts :: "alert list"

text \<open>\<^verbatim>\<open>const currentPortfolio = portfolio?.[0] ?? null\<close>\<close>

definition currentPortfolio :: "page \<Rightarrow> PortfolioRecord option" where
  "currentPortfolio st =
     (case portfolio st of
        Found (p # ps) \<Rightarrow> Some p
      | _ \<Rightarrow> None)"

text \<open>The initial values given to \<^verbatim>\<open>useState\<close>.\<close>

definition init_page :: "DesignerRecord query \<Rightarrow> PortfolioRecord list query \<Rightarrow> page" where
  "init_page d p =
     \<lparr> designerProfile = d, portfolio = p,
       designerForm = \<lparr> form_contact_number = [], form_address = [] \<rparr>,
       portfolioForm = \<lparr> form_title = [], form_description = [], form_specialization = [],
                         form_skills = [], form_social_links = [] \<rparr>,
       newSkill = [], newSocial = \<lparr> platform = [], url = [] \<rparr>,
       editContact = False, editPortfolio = False,
       mutations = [], alerts = [] \<rparr>"


section \<open>The portfolio page: handlers\<close>

text \<open>The \<^verbatim>\<open>onChange\<close> handlers of the inputs for a new skill and a new social link.\<close>

definition setNewSkill :: "string \<Rightarrow> page \<Rightarrow> page" where
  "setNewSkill v st = st\<lparr> newSkill := v \<rparr>"

definition setNewSocial :: "SocialLink \<Rightarrow> page \<Rightarrow> page" where
  "setNewSocial v st = st\<lparr> newSocial := v \<rparr>"

definition addSkill :: "page \<Rightarrow> page" where
  "addSkill st =
     (if trim (newSkill st) \<noteq> [] \<and> trim (newSkill st) \<notin> set (form_skills (portfolioForm st))
      then st\<lparr> portfolioForm := (portfolioForm st)
                  \<lparr> form_skills := form_skills (portfolioForm st) @ [trim (newSkill st)] \<rparr>,
               newSkill := [] \<rparr>
      else st)"

definition removeSkill :: "string \<Rightarrow> page \<Rightarrow> page" where
  "removeSkill skill st =
     st\<lparr> portfolioForm := (portfolioForm st)
           \<lparr> form_skills := filter (\<lambda>s. s \<noteq> skill) (form_skills (portfolioForm st)) \<rparr> \<rparr>"

definition addSocialLink :: "page \<Rightarrow> page" where
  "addSocialLink st =
     (if trim (platform (newSocial st)) \<noteq> [] \<and> trim (url (newSocial st)) \<noteq> []
      then st\<lparr> portfolioForm := (portfolioForm st)
                  \<lparr> form_social_links := form_social_links (portfolioForm st) @
                       [\<lparr> platform = trim (platform (newSocial st)),
                          url = trim (url (newSocial st)) \<rparr>] \<rparr>,
               newSocial := \<lparr> platform = [], url = [] \<rparr> \<rparr>
      else st)"

text \<open>
  \<^verbatim>\<open>xs.filter((_, i) => i !== index)\<close>: the callback sees every element with its
  position. The index is a JavaScript number; the model takes the integers.
\<close>

definition filter_index :: "int \<Rightarrow> 'a list \<Rightarrow> 'a list" where
  "filter_index index xs =
     map snd (filter (\<lambda>(i, x). int i \<noteq> index) (enumerate 0 xs))"

definition removeSocialLink :: "int \<Rightarrow> page \<Rightarrow> page" where
  "removeSocialLink index st =
     st\<lparr> portfolioForm := (portfolioForm st)
           \<lparr> form_social_links := filter_index index (form_social_links (portfolioForm st)) \<rparr> \<rparr>"

text \<open>
  The two effects that seed the forms whenever the designer document or the current
  portfolio document changes; \<^verbatim>\<open>x ?? d\<close> is \<open>nullish x d\<close>.
\<close>

definition nullish :: "'a option \<Rightarrow> 'a \<Rightarrow> 'a" where
  "nullish x d = (case x of None \<Rightarrow> d | Some v \<Rightarrow> v)"

definition syncDesignerForm :: "page \<Rightarrow> page" where
  "syncDesignerForm st =
     (case designerProfile st of
        Found d \<Rightarrow>
          st\<lparr> designerForm :=
                \<lparr> form_contact_number = nullish (contact_number d) [],
                  form_address = nullish (address d) [] \<rparr> \<rparr>
      | _ \<Rightarrow> st)"

definition syncPortfolioForm :: "page \<Rightarrow> page" where
  "syncPortfolioForm st =
     (case currentPortfolio st of
        None \<Rightarrow> st
      | Some p \<Rightarrow>
          st\<lparr> portfolioForm :=
                \<lparr> form_title = nullish (title p) [],
                  form_description = nullish (description p) [],
                  form_specialization = nullish (specialization p) [],
                  form_skills = nullish (skills p) [],
                  form_social_links = nullish (social_links p) [] \<rparr> \<rparr>)"

text \<open>
  Both handlers that save return at once, their promise fulfilled, when the backing
  document is missing. Otherwise the mutation is called, and only when the awaited call
  is fulfilled do the two statements after it run; a rejected call rejects the handler at
  the \<^verbatim>\<open>await\<close>, and a call that never settles leaves it suspended there.
\<close>

definition saveContactInfo :: "backend \<Rightarrow> page \<Rightarrow> outcome \<times> page" where
  "saveContactInfo updateDesigner st =
     (case designerProfile st of
        Found d \<Rightarrow>
          (let call = UpdateDesigner (designer_doc_id d)
                        (form_contact_number (designerForm st))
                        (form_address (designerForm st));
               called = st\<lparr> mutations := mutations st @ [call] \<rparr>
           in case updateDesigner call of
                Fulfilled \<Rightarrow>
                  (Fulfilled,
                   called\<lparr> editContact := False,
                           alerts := alerts called @ [ContactInfoUpdated] \<rparr>)
              | Failed \<Rightarrow> (Failed, called)
              | Unsettled \<Rightarrow> (Unsettled, called))
      | _ \<Rightarrow> (Fulfilled, st))"

definition savePortfolio :: "backend \<Rightarrow> page \<Rightarrow> outcome \<times> page" where
  "savePortfolio updatePortfolio st =
     (case currentPortfolio st of
        None \<Rightarrow> (Fulfilled, st)
      | Some p \<Rightarrow>
          if trim (form_title (portfolioForm st)) = [] \<or>
             trim (form_description (portfolioForm st)) = [] \<or>
             trim (form_specialization (portfolioForm st)) = [] \<or>
             length (form_skills (portfolioForm st)) = 0
          then (Fulfilled, st\<lparr> alerts := alerts st @ [PortfolioIncomplete] \<rparr>)
          else
            (let call = UpdatePortfolio (portfolio_doc_id p)
                          (form_title (portfolioForm st))
                          (form_description (portfolioForm st))
                          (form_specialization (portfolioForm st))
                          (form_skills (portfolioForm st))
                          (form_social_links (portfolioForm st));
                 called = st\<lparr> mutations := mutations st @ [call] \<rparr>
             in case updatePortfolio call of
                  Fulfilled \<Rightarrow>
                    (Fulfilled,
                     called\<lparr> editPortfolio := False,
                             alerts := alerts called @ [PortfolioSaved] \<rparr>)
                | Failed \<Rightarrow> (Failed, called)
                | Unsettled \<Rightarrow> (Unsettled, called)))"


section \<open>The portfolio page: checks\<close>

definition isPortfolioEmpty :: "page \<Rightarrow> bool" where
  "isPortfolioEmpty st =
     (case currentPortfolio st of
        None \<Rightarrow> True
      | Some p \<Rightarrow>
          not_string (title p) \<and>
          not_string (description p) \<and>
          not_string (specialization p) \<and>
          (case skills p of None \<Rightarrow> True | Some xs \<Rightarrow> length xs = 0) \<and>
          (case social_links p of None \<Rightarrow> True | Some ls \<Rightarrow> length ls = 0))"

text \<open>
  In \<^verbatim>\<open>isContactInfoEmpty\<close> each field is tested by \<^verbatim>\<open>!x\<close> and then, being a
  non-empty string, compared with the sentinel.
\<close>

definition isContactInfoEmpty :: "page \<Rightarrow> bool" where
  "isContactInfoEmpty st =
     (case designerProfile st of
        Found d \<Rightarrow>
          (case contact_number d of
             None \<Rightarrow> True
           | Some c \<Rightarrow> c = [] \<or> toLowerCase (trim c) = ''na'') \<or>
          (case address d of
             None \<Rightarrow> True
           | Some a \<Rightarrow> a = [] \<or> toLowerCase (trim a) = ''na'')
      | _ \<Rightarrow> True)"


section \<open>The project list\<close>

text \<open>
  The component receives \<^verbatim>\<open>requests: any[]\<close>. The fields it reads are typed after the
  \<^verbatim>\<open>design_requests\<close> table of the schema; \<^verbatim>\<open>designer\<close> is the joined designer, read
  through \<^verbatim>\<open>?.\<close> and so possibly missing.
\<close>

datatype request_status = Pending | Approved | Rejected

record DesignerInfo =
  full_name :: string

record Project =
  project_id :: doc_id
  request_title :: string
  status :: request_status
  tshirt_type :: "string option"
  designer :: "DesignerInfo option"

text \<open>
  What one card shows: its React key, the title, the status badge, the garment type and
  the designer line. The whole component shows either the call to action ("No active
  projects found." with the button "Create Your First Request") or the grid of cards.
\<close>

record Card =
  card_key :: doc_id
  card_title :: string
  card_status :: request_status
  card_type :: string
  card_designer :: string

datatype view = CallToAction | ProjectGrid "Card list"

text \<open>A JSX child \<^verbatim>\<open>{x}\<close> renders no text when \<^verbatim>\<open>x\<close> is \<^verbatim>\<open>undefined\<close>.\<close>

definition jsx_text :: "string option \<Rightarrow> string" where
  "jsx_text x = (case x of None \<Rightarrow> [] | Some s \<Rightarrow> s)"

text \<open>\<^verbatim>\<open>project.designer?.full_name || "Unassigned"\<close>\<close>

definition designer_label :: "Project \<Rightarrow> string" where
  "designer_label project =
     (case designer project of
        None \<Rightarrow> ''Unassigned''
      | Some d \<Rightarrow> if full_name d = [] then ''Unassigned'' else full_name d)"

definition card :: "Project \<Rightarrow> Card" where
  "card project =
     \<lparr> card_key = project_id project,
       card_title = request_title project,
       card_status = status project,
       card_type = jsx_text (tshirt_type project),
       card_designer = designer_label project \<rparr>"

definition ProjectsSection :: "Project list \<Rightarrow> view" where
  "ProjectsSection requests =
     (if length requests = 0 then CallToAction
      else ProjectGrid (map card requests))"


section \<open>The properties as the specification words them\<close>

text \<open>
  The specification's reading of the contact check: a field counts as missing when it is
  absent or when, trimmed and compared without regard to case, it is the sentinel.
\<close>

definition spec_isContactInfoEmpty :: "page \<Rightarrow> bool" where
  "spec_isContactInfoEmpty st =
     (case designerProfile st of
        Found d \<Rightarrow>
          (case contact_number d of
             None \<Rightarrow> True
           | Some c \<Rightarrow> toLowerCase (trim c) = ''na'') \<or>
          (case address d of
             None \<Rightarrow> True
           | Some a \<Rightarrow> toLowerCase (trim a) = ''na'')
      | _ \<Rightarrow> True)"

text \<open>
  The specification's reading of the designer line of a card: the name of the assigned
  designer, and the fallback text when no designer is assigned.
\<close>

definition spec_designer_label :: "Project \<Rightarrow> string" where
  "spec_designer_label project =
     (case designer project of
        None \<Rightarrow> ''Unassigned''
      | Some d \<Rightarrow> full_name d)"

text \<open>A field of a document is populated when it is present and not empty.\<close>

definition populated :: "'a list option \<Rightarrow> bool" where
  "populated x = (case x of None \<Rightarrow> False | Some v \<Rightarrow> v \<noteq> [])"


section \<open>Sample data\<close>

definition sample_designer :: "string option \<Rightarrow> string option \<Rightarrow> DesignerRecord" where
  "sample_designer c a =
     \<lparr> designer_doc_id = DocId 1, user_id = DocId 2,
       contact_number = c, address = a, portfolio_id = Some (DocId 7) \<rparr>"

definition sample_portfolio :: PortfolioRecord where
  "sample_portfolio =
     \<lparr> portfolio_doc_id = DocId 7, designer_id = DocId 1,
       title = None, description = None, specialization = None,
       skills = None, social_links = None \<rparr>"

definition contact_page :: "string option \<Rightarrow> string option \<Rightarrow> page" where
  "contact_page c a = init_page (Found (sample_designer c a)) (Found [sample_portfolio])"

definition form_page :: "string list \<Rightarrow> page" where
  "form_page sk =
     (init_page (Found (sample_designer None None)) (Found [sample_portfolio]))
       \<lparr> portfolioForm :=
           \<lparr> form_title = ''T'', form_description = ''D'', form_specialization = ''S'',
             form_skills = sk, form_social_links = [] \<rparr>,
         editPortfolio := True \<rparr>"

definition sample_link :: "string \<Rightarrow> SocialLink" where
  "sample_link p = \<lparr> platform = p, url = ''example.org/'' @ p \<rparr>"

definition links_page :: "SocialLink list \<Rightarrow> page" where
  "links_page ls =
     (init_page (Found (sample_designer None None)) (Found [sample_portfolio]))
       \<lparr> portfolioForm :=
           \<lparr> form_title = ''T'', form_description = ''D'', form_specialization = ''S'',
             form_skills = [''x''], form_social_links = ls \<rparr>,
         editPortfolio := True \<rparr>"

definition portfolio_page :: "PortfolioRecord list query \<Rightarrow> page" where
  "portfolio_page q = init_page (Found (sample_designer None None)) q"

definition unloaded_page :: page where
  "unloaded_page =
     (init_page Missing (Found []))
       \<lparr> designerForm := \<lparr> form_contact_number = ''555 0100'', form_address = ''12 Elm Street'' \<rparr>,
         editContact := True, editPortfolio := True \<rparr>"

text \<open>A backend that accepts every call, one that rejects every call, one that never answers.\<close>

definition working_backend :: backend where
  "working_backend call = Fulfilled"

definition failing_backend :: backend where
  "failing_backend call = Failed"

definition hanging_backend :: backend where
  "hanging_backend call = Unsettled"

definition editing_contact_page :: page where
  "editing_contact_page =
     (init_page (Found (sample_designer None None)) (Found [sample_portfolio]))
       \<lparr> designerForm := \<lparr> form_contact_number = ''  '', form_address = ''na'' \<rparr>,
         editContact := True \<rparr>"

definition sample_project :: "nat \<Rightarrow> string \<Rightarrow> DesignerInfo option \<Rightarrow> Project" where
  "sample_project n t d =
     \<lparr> project_id = DocId n, request_title = t, status = Pending,
       tshirt_type = Some ''polo'', designer = d \<rparr>"


section \<open>Facts about the built-ins\<close>

lemma toLowerCase_char_n:
  "toLowerCase_char c = CHR ''n'' \<longleftrightarrow> c = CHR ''n'' \<or> c = CHR ''N''"
proof -
  have e: "\<And>d. (c = d) = (of_char c = (of_char d :: nat))" by simp
  show ?thesis
    unfolding toLowerCase_char_def Let_def
    by (auto simp: char_of_eq_iff take_bit_eq_mod e simp del: of_char_eq_iff)
qed

lemma toLowerCase_char_a:
  "toLowerCase_char c = CHR ''a'' \<longleftrightarrow> c = CHR ''a'' \<or> c = CHR ''A''"
proof -
  have e: "\<And>d. (c = d) = (of_char c = (of_char d :: nat))" by simp
  show ?thesis
    unfolding toLowerCase_char_def Let_def
    by (auto simp: char_of_eq_iff take_bit_eq_mod e simp del: of_char_eq_iff)
qed

text \<open>Exactly four strings are, case ignored, the sentinel.\<close>

lemma toLowerCase_na:
  "toLowerCase s = ''na'' \<longleftrightarrow> s \<in> set [''na'', ''nA'', ''Na'', ''NA'']"
proof (cases s)
  case Nil
  then show ?thesis by (simp add: toLowerCase_def)
next
  case (Cons x xs)
  note outer = this
  show ?thesis
  proof (cases xs)
    case Nil
    with outer show ?thesis by (simp add: toLowerCase_def)
  next
    case (Cons y ys)
    with outer show ?thesis
      by (cases ys) (auto simp: toLowerCase_def toLowerCase_char_n toLowerCase_char_a)
  qed
qed

text \<open>Filtering the positions different from \<open>k\<close> cuts position \<open>k\<close> out, if there is one.\<close>

lemma filter_enumerate:
  "map snd (filter (\<lambda>(j, x). j \<noteq> k) (enumerate n xs)) =
     (if n \<le> k \<and> k < n + length xs then take (k - n) xs @ drop (Suc (k - n)) xs else xs)"
proof (induction xs arbitrary: n)
  case Nil
  then show ?case by simp
next
  case (Cons x xs)
  consider "k < n" | "k = n" | "n < k" by arith
  then show ?case
  proof cases
    case 1
    then show ?thesis using Cons.IH [of "Suc n"] by simp
  next
    case 2
    then show ?thesis using Cons.IH [of "Suc n"] by simp
  next
    case 3
    then obtain m where m: "k - n = Suc m" "k - Suc n = m"
      by (cases "k - n") auto
    with 3 show ?thesis using Cons.IH [of "Suc n"] by auto
  qed
qed

lemma filter_index_eq:
  "filter_index i xs =
     (if 0 \<le> i \<and> i < int (length xs) then take (nat i) xs @ drop (Suc (nat i)) xs else xs)"
proof (cases "0 \<le> i")
  case True
  then have "(\<lambda>(j::nat, x::'a). int j \<noteq> i) = (\<lambda>(j, x). j \<noteq> nat i)"
    by (auto simp: fun_eq_iff)
  then show ?thesis
    using True by (auto simp: filter_index_def filter_enumerate)
next
  case False
  then have "filter (\<lambda>(j::nat, x::'a). int j \<noteq> i) (enumerate 0 xs) = enumerate 0 xs"
    by (intro filter_True) auto
  then show ?thesis
    using False by (simp add: filter_index_def)
qed


section \<open>Saving the portfolio\<close>

text \<open>
  Claim C1, as worded, has every complete form saved, edit mode left and the confirmation
  shown. The handler awaits the mutation without catching its failure: when the backend
  rejects the call for a complete form, nothing is persisted, the page stays in portfolio
  edit mode and no confirmation is shown.
\<close>

theorem savePortfolio_rejected_counterexample:
  "currentPortfolio (form_page [''x'']) = Some sample_portfolio \<and>
   savePortfolio failing_backend (form_page [''x'']) =
     (Failed,
      (form_page [''x''])
        \<lparr> mutations := [UpdatePortfolio (DocId 7) ''T'' ''D'' ''S'' [''x''] []] \<rparr>) \<and>
   editPortfolio (snd (savePortfolio failing_backend (form_page [''x'']))) \<and>
   alerts (snd (savePortfolio failing_backend (form_page [''x'']))) = []"
  by (simp add: savePortfolio_def failing_backend_def form_page_def init_page_def
      currentPortfolio_def sample_portfolio_def trim_def isWhiteSpace_def)

text \<open>
  Claim C1, amended. When a current portfolio document exists, \<^verbatim>\<open>savePortfolio\<close> checks
  the form: if the title, the description or the specialization is empty once trimmed, or
  the list of skills is empty, the only effect is the warning, so nothing is submitted and
  the edit flag keeps its value. Otherwise the mutation is called with the document's id
  and exactly the five form fields title, description, specialization, skills and
  social_links; when that call is fulfilled the page leaves portfolio edit mode and the
  confirmation is shown, and when it is rejected or never settles the call is the only
  effect: the edit flag keeps its value and nothing is shown.
\<close>

theorem savePortfolio_validates:
  assumes "currentPortfolio st = Some p"
  shows
    "(let incomplete =
            (trim (form_title (portfolioForm st)) = [] \<or>
             trim (form_description (portfolioForm st)) = [] \<or>
             trim (form_specialization (portfolioForm st)) = [] \<or>
             form_skills (portfolioForm st) = []);
          call = UpdatePortfolio (portfolio_doc_id p)
                   (form_title (portfolioForm st))
                   (form_description (portfolioForm st))
                   (form_specialization (portfolioForm st))
                   (form_skills (portfolioForm st))
                   (form_social_links (portfolioForm st))
      in (incomplete \<longrightarrow>
            savePortfolio updatePortfolio st =
              (Fulfilled, st\<lparr> alerts := alerts st @ [PortfolioIncomplete] \<rparr>)) \<and>
         (\<not> incomplete \<and> updatePortfolio call = Fulfilled \<longrightarrow>
            savePortfolio updatePortfolio st =
              (Fulfilled,
               st\<lparr> mutations := mutations st @ [call],
                   editPortfolio := False,
                   alerts := alerts st @ [PortfolioSaved] \<rparr>)) \<and>
         (\<not> incomplete \<and> updatePortfolio call \<noteq> Fulfilled \<longrightarrow>
            savePortfolio updatePortfolio st =
              (updatePortfolio call, st\<lparr> mutations := mutations st @ [call] \<rparr>)))"
  using assms by (auto simp: savePortfolio_def Let_def split: outcome.splits)

text \<open>
  With a backend that accepts the call, the form T, D, S with the one skill x is saved and
  edit mode is left; with no skill the save is refused and the page stays in edit mode.
  With a backend that never answers, the complete form is submitted and that is all.
\<close>

theorem savePortfolio_validates_witness:
  "currentPortfolio (form_page [''x'']) = Some sample_portfolio \<and>
   currentPortfolio (form_page []) = Some sample_portfolio \<and>
   savePortfolio working_backend (form_page [''x'']) =
     (Fulfilled,
      (form_page [''x''])
        \<lparr> mutations := [UpdatePortfolio (DocId 7) ''T'' ''D'' ''S'' [''x''] []],
          editPortfolio := False, alerts := [PortfolioSaved] \<rparr>) \<and>
   savePortfolio working_backend (form_page []) =
     (Fulfilled, (form_page []) \<lparr> alerts := [PortfolioIncomplete] \<rparr>) \<and>
   editPortfolio (snd (savePortfolio working_backend (form_page []))) \<and>
   mutations (snd (savePortfolio working_backend (form_page []))) = [] \<and>
   savePortfolio hanging_backend (form_page [''x'']) =
     (Unsettled,
      (form_page [''x''])
        \<lparr> mutations := [UpdatePortfolio (DocId 7) ''T'' ''D'' ''S'' [''x''] []] \<rparr>)"
  using savePortfolio_validates [of "form_page [''x'']" sample_portfolio working_backend]
    savePortfolio_validates [of "form_page []" sample_portfolio working_backend]
    savePortfolio_validates [of "form_page [''x'']" sample_portfolio hanging_backend]
  by (simp add: Let_def working_backend_def hanging_backend_def form_page_def init_page_def
      currentPortfolio_def sample_portfolio_def trim_def isWhiteSpace_def)


section \<open>The contact check\<close>

text \<open>
  Claim C2, as worded, takes a present field for missing only when it is the sentinel. The
  check also takes the empty string for missing: a designer whose stored contact number
  is the empty string is reported as having no contact information, although the number
  is neither absent nor the sentinel.
\<close>

theorem isContactInfoEmpty_counterexample:
  "isContactInfoEmpty (contact_page (Some []) (Some ''12 Elm Street'')) \<and>
   \<not> spec_isContactInfoEmpty (contact_page (Some []) (Some ''12 Elm Street''))"
  by (simp add: isContactInfoEmpty_def spec_isContactInfoEmpty_def contact_page_def
      init_page_def sample_designer_def trim_def isWhiteSpace_def toLowerCase_def)

text \<open>
  Claim C2, amended. \<^verbatim>\<open>isContactInfoEmpty\<close> holds if and only if the designer document is
  absent (loading or null), or the contact number or the address is absent or the empty
  string, or one of the two, trimmed, is the sentinel in any mix of upper and lower case.
\<close>

theorem isContactInfoEmpty_iff:
  "isContactInfoEmpty st \<longleftrightarrow>
     designerProfile st = Loading \<or> designerProfile st = Missing \<or>
     (\<exists>d. designerProfile st = Found d \<and>
        (contact_number d = None \<or> contact_number d = Some [] \<or>
         address d = None \<or> address d = Some [] \<or>
         (\<exists>c. contact_number d = Some c \<and> trim c \<in> {''na'', ''nA'', ''Na'', ''NA''}) \<or>
         (\<exists>a. address d = Some a \<and> trim a \<in> {''na'', ''nA'', ''Na'', ''NA''})))"
proof (cases "designerProfile st")
  case (Found d)
  then show ?thesis
    by (auto simp: isContactInfoEmpty_def toLowerCase_na split: option.splits)
qed (simp_all add: isContactInfoEmpty_def)

text \<open>
  The stored values NA, na between blanks, and Na count as missing, as do an absent and an
  empty field; a real number with a real address does not.
\<close>

theorem isContactInfoEmpty_iff_witness:
  "isContactInfoEmpty (contact_page (Some ''NA'') (Some ''12 Elm Street'')) \<and>
   isContactInfoEmpty (contact_page (Some '' na '') (Some ''12 Elm Street'')) \<and>
   isContactInfoEmpty (contact_page (Some ''555 0100'') (Some ''Na'')) \<and>
   isContactInfoEmpty (contact_page None (Some ''12 Elm Street'')) \<and>
   isContactInfoEmpty (contact_page (Some ''555 0100'') (Some [])) \<and>
   \<not> isContactInfoEmpty (contact_page (Some ''555 0100'') (Some ''12 Elm Street''))"
  using isContactInfoEmpty_iff [of "contact_page (Some ''NA'') (Some ''12 Elm Street'')"]
    isContactInfoEmpty_iff [of "contact_page (Some '' na '') (Some ''12 Elm Street'')"]
    isContactInfoEmpty_iff [of "contact_page (Some ''555 0100'') (Some ''Na'')"]
    isContactInfoEmpty_iff [of "contact_page None (Some ''12 Elm Street'')"]
    isContactInfoEmpty_iff [of "contact_page (Some ''555 0100'') (Some [])"]
    isContactInfoEmpty_iff [of "contact_page (Some ''555 0100'') (Some ''12 Elm Street'')"]
  by (simp add: contact_page_def init_page_def sample_designer_def trim_def isWhiteSpace_def)


section \<open>Editing the skills\<close>

text \<open>
  Claim C3, as worded, promises exactly one occurrence of the trimmed input after two
  additions, for every input and every form. Two additions of a blank input leave an empty
  list, which holds the empty string zero times; and a form seeded from a stored
  portfolio that lists a skill twice still holds it twice after the skill is added
  twice more.
\<close>

theorem addSkill_blank_or_repeated_counterexample:
  "count_list
     (form_skills (portfolioForm
        (addSkill (setNewSkill ''  '' (addSkill (setNewSkill ''  '' (form_page [])))))))
     (trim ''  '') = 0 \<and>
   count_list
     (form_skills (portfolioForm
        (addSkill (setNewSkill ''a'' (addSkill (setNewSkill ''a''
           (syncPortfolioForm
              (portfolio_page (Found [sample_portfolio \<lparr> skills := Some [''a'', ''a''] \<rparr>])))))))))
     (trim ''a'') = 2"
  by (simp add: addSkill_def setNewSkill_def syncPortfolioForm_def nullish_def form_page_def
      portfolio_page_def currentPortfolio_def sample_portfolio_def init_page_def
      trim_def isWhiteSpace_def)

text \<open>
  Claim C3, amended. For every input whose trimmed form is not empty and every form whose
  list of skills holds that trimmed form at most once, typing the input and adding it,
  twice in succession, leaves exactly one occurrence of the trimmed form in the list. The
  same holds when the button is pressed twice after the input is typed once.
\<close>

theorem addSkill_twice:
  assumes "trim s \<noteq> []"
    and "count_list (form_skills (portfolioForm st)) (trim s) \<le> 1"
  shows "count_list
           (form_skills (portfolioForm (addSkill (setNewSkill s (addSkill (setNewSkill s st))))))
           (trim s) = 1 \<and>
         count_list
           (form_skills (portfolioForm (addSkill (addSkill (setNewSkill s st)))))
           (trim s) = 1"
proof (cases "trim s \<in> set (form_skills (portfolioForm st))")
  case True
  then have "count_list (form_skills (portfolioForm st)) (trim s) \<noteq> 0"
    by (simp add: count_list_0_iff)
  with assms(2) have "count_list (form_skills (portfolioForm st)) (trim s) = 1" by arith
  with True show ?thesis
    by (simp add: addSkill_def setNewSkill_def)
next
  case False
  then have "count_list (form_skills (portfolioForm st)) (trim s) = 0"
    by (simp add: count_list_0_iff)
  with False assms(1) show ?thesis
    by (simp add: addSkill_def setNewSkill_def trim_def)
qed

text \<open>Adding the input React, typed between blanks, twice to the list holding x.\<close>

theorem addSkill_twice_witness:
  "trim '' React '' \<noteq> [] \<and>
   count_list (form_skills (portfolioForm (form_page [''x'']))) (trim '' React '') \<le> 1 \<and>
   count_list
     (form_skills (portfolioForm
        (addSkill (setNewSkill '' React '' (addSkill (setNewSkill '' React '' (form_page [''x''])))))))
     ''React'' = 1 \<and>
   count_list
     (form_skills (portfolioForm (addSkill (addSkill (setNewSkill '' React '' (form_page [''x'']))))))
     ''React'' = 1"
  using addSkill_twice [of "'' React ''" "form_page [''x'']"]
  by (simp add: form_page_def init_page_def trim_def isWhiteSpace_def)

text \<open>
  Claim C4. \<^verbatim>\<open>addSkill\<close> trims the pending input. When the trimmed input is empty or is
  already an element of the list of skills (compared exactly, case included), the list
  stays as it is; otherwise the trimmed input is appended at the end, after all the
  earlier entries in their order.
\<close>

theorem addSkill_appends_trimmed:
  "form_skills (portfolioForm (addSkill st)) =
     (if trim (newSkill st) = [] \<or> trim (newSkill st) \<in> set (form_skills (portfolioForm st))
      then form_skills (portfolioForm st)
      else form_skills (portfolioForm st) @ [trim (newSkill st)])"
  by (simp add: addSkill_def)

text \<open>
  A new skill goes to the end, trimmed; a repeated one and a blank one change nothing; a
  skill that differs in case only is a new one.
\<close>

theorem addSkill_appends_trimmed_witness:
  "form_skills (portfolioForm (addSkill (setNewSkill '' sewing '' (form_page [''x''])))) =
     [''x'', ''sewing''] \<and>
   form_skills (portfolioForm (addSkill (setNewSkill '' x'' (form_page [''x''])))) = [''x''] \<and>
   form_skills (portfolioForm (addSkill (setNewSkill ''X'' (form_page [''x''])))) = [''x'', ''X''] \<and>
   form_skills (portfolioForm (addSkill (setNewSkill ''   '' (form_page [''x''])))) = [''x'']"
  using addSkill_appends_trimmed [of "setNewSkill '' sewing '' (form_page [''x''])"]
    addSkill_appends_trimmed [of "setNewSkill '' x'' (form_page [''x''])"]
    addSkill_appends_trimmed [of "setNewSkill ''X'' (form_page [''x''])"]
    addSkill_appends_trimmed [of "setNewSkill ''   '' (form_page [''x''])"]
  by (simp add: setNewSkill_def form_page_def init_page_def trim_def isWhiteSpace_def)


section \<open>Editing the social links\<close>

text \<open>
  Claim C5. When the pending platform or the pending address is blank once trimmed,
  \<^verbatim>\<open>addSocialLink\<close> changes nothing at all in the state of the page; when neither is,
  it appends the pair of the trimmed platform and the trimmed address at the end of the
  list of social links.
\<close>

theorem addSocialLink_requires_both:
  "(trim (platform (newSocial st)) = [] \<or> trim (url (newSocial st)) = [] \<longrightarrow>
      addSocialLink st = st) \<and>
   (trim (platform (newSocial st)) \<noteq> [] \<and> trim (url (newSocial st)) \<noteq> [] \<longrightarrow>
      form_social_links (portfolioForm (addSocialLink st)) =
        form_social_links (portfolioForm st) @
          [\<lparr> platform = trim (platform (newSocial st)), url = trim (url (newSocial st)) \<rparr>])"
  by (simp add: addSocialLink_def)

text \<open>A link with a blank address is not added; a complete one is added trimmed.\<close>

theorem addSocialLink_requires_both_witness:
  "addSocialLink (setNewSocial \<lparr> platform = ''Behance'', url = ''  '' \<rparr> (form_page [])) =
     setNewSocial \<lparr> platform = ''Behance'', url = ''  '' \<rparr> (form_page []) \<and>
   form_social_links (portfolioForm
      (addSocialLink (setNewSocial \<lparr> platform = '' Behance'', url = ''be.net/x '' \<rparr> (form_page [])))) =
     [\<lparr> platform = ''Behance'', url = ''be.net/x'' \<rparr>]"
  using addSocialLink_requires_both [of "setNewSocial \<lparr> platform = ''Behance'', url = ''  '' \<rparr> (form_page [])"]
    addSocialLink_requires_both [of "setNewSocial \<lparr> platform = '' Behance'', url = ''be.net/x '' \<rparr> (form_page [])"]
  by (simp add: setNewSocial_def form_page_def init_page_def trim_def isWhiteSpace_def)

text \<open>
  Claim C6. \<^verbatim>\<open>removeSocialLink\<close> called with index \<open>i\<close> changes the list of social links
  only: the element at position \<open>i\<close> of the list at the time of the call is cut out and
  all other elements keep their order. An index at which the list has no element removes
  nothing.
\<close>

theorem removeSocialLink_at_index:
  "removeSocialLink i st =
     st\<lparr> portfolioForm := (portfolioForm st)
           \<lparr> form_social_links :=
               (if 0 \<le> i \<and> i < int (length (form_social_links (portfolioForm st)))
                then take (nat i) (form_social_links (portfolioForm st)) @
                     drop (Suc (nat i)) (form_social_links (portfolioForm st))
                else form_social_links (portfolioForm st)) \<rparr> \<rparr>"
  by (simp only: removeSocialLink_def filter_index_eq)

text \<open>
  Removing the middle one of three links; removing the last of three when the first is
  equal to it; and indices outside the list.
\<close>

theorem removeSocialLink_at_index_witness:
  "form_social_links (portfolioForm
      (removeSocialLink 1 (links_page [sample_link ''a'', sample_link ''b'', sample_link ''c'']))) =
     [sample_link ''a'', sample_link ''c''] \<and>
   form_social_links (portfolioForm
      (removeSocialLink 2 (links_page [sample_link ''a'', sample_link ''b'', sample_link ''a'']))) =
     [sample_link ''a'', sample_link ''b''] \<and>
   removeSocialLink 3 (links_page [sample_link ''a'', sample_link ''b'', sample_link ''c'']) =
     links_page [sample_link ''a'', sample_link ''b'', sample_link ''c''] \<and>
   removeSocialLink (- 1) (links_page [sample_link ''a'', sample_link ''b'', sample_link ''c'']) =
     links_page [sample_link ''a'', sample_link ''b'', sample_link ''c'']"
  using removeSocialLink_at_index [of 1 "links_page [sample_link ''a'', sample_link ''b'', sample_link ''c'']"]
    removeSocialLink_at_index [of 2 "links_page [sample_link ''a'', sample_link ''b'', sample_link ''a'']"]
    removeSocialLink_at_index [of 3 "links_page [sample_link ''a'', sample_link ''b'', sample_link ''c'']"]
    removeSocialLink_at_index [of "- 1" "links_page [sample_link ''a'', sample_link ''b'', sample_link ''c'']"]
  by (simp add: links_page_def init_page_def)


section \<open>The portfolio check\<close>

text \<open>
  Claim C7. \<^verbatim>\<open>isPortfolioEmpty\<close> holds if and only if there is no current portfolio
  document, or its title, description and specialization are each absent or empty and its
  skills and its social links are each absent or empty. So it is false as soon as one of
  the five fields is populated.
\<close>

theorem isPortfolioEmpty_iff:
  "(isPortfolioEmpty st \<longleftrightarrow>
      currentPortfolio st = None \<or>
      (\<exists>p. currentPortfolio st = Some p \<and>
         (title p = None \<or> title p = Some []) \<and>
         (description p = None \<or> description p = Some []) \<and>
         (specialization p = None \<or> specialization p = Some []) \<and>
         (skills p = None \<or> skills p = Some []) \<and>
         (social_links p = None \<or> social_links p = Some []))) \<and>
   (\<forall>p. currentPortfolio st = Some p \<and>
      (populated (title p) \<or> populated (description p) \<or> populated (specialization p) \<or>
       populated (skills p) \<or> populated (social_links p)) \<longrightarrow>
      \<not> isPortfolioEmpty st)"
  by (auto simp: isPortfolioEmpty_def not_string_def populated_def split: option.splits)

text \<open>
  No document, and a document with nothing or only empty values in it, are empty; a
  document with any single field filled in is not.
\<close>

theorem isPortfolioEmpty_iff_witness:
  "isPortfolioEmpty (portfolio_page Loading) \<and>
   isPortfolioEmpty (portfolio_page Missing) \<and>
   isPortfolioEmpty (portfolio_page (Found [])) \<and>
   isPortfolioEmpty (portfolio_page (Found [sample_portfolio])) \<and>
   isPortfolioEmpty (portfolio_page (Found [sample_portfolio
      \<lparr> title := Some [], skills := Some [], social_links := Some [] \<rparr>])) \<and>
   \<not> isPortfolioEmpty (portfolio_page (Found [sample_portfolio \<lparr> title := Some ''T'' \<rparr>])) \<and>
   \<not> isPortfolioEmpty (portfolio_page (Found [sample_portfolio \<lparr> description := Some ''D'' \<rparr>])) \<and>
   \<not> isPortfolioEmpty (portfolio_page (Found [sample_portfolio \<lparr> specialization := Some ''S'' \<rparr>])) \<and>
   \<not> isPortfolioEmpty (portfolio_page (Found [sample_portfolio \<lparr> skills := Some [''x''] \<rparr>])) \<and>
   \<not> isPortfolioEmpty (portfolio_page (Found [sample_portfolio
      \<lparr> social_links := Some [sample_link ''a''] \<rparr>]))"
  using isPortfolioEmpty_iff [of "portfolio_page Loading"]
    isPortfolioEmpty_iff [of "portfolio_page Missing"]
    isPortfolioEmpty_iff [of "portfolio_page (Found [])"]
    isPortfolioEmpty_iff [of "portfolio_page (Found [sample_portfolio])"]
    isPortfolioEmpty_iff [of "portfolio_page (Found [sample_portfolio
      \<lparr> title := Some [], skills := Some [], social_links := Some [] \<rparr>])"]
    isPortfolioEmpty_iff [of "portfolio_page (Found [sample_portfolio \<lparr> title := Some ''T'' \<rparr>])"]
    isPortfolioEmpty_iff [of "portfolio_page (Found [sample_portfolio \<lparr> description := Some ''D'' \<rparr>])"]
    isPortfolioEmpty_iff [of "portfolio_page (Found [sample_portfolio \<lparr> specialization := Some ''S'' \<rparr>])"]
    isPortfolioEmpty_iff [of "portfolio_page (Found [sample_portfolio \<lparr> skills := Some [''x''] \<rparr>])"]
    isPortfolioEmpty_iff [of "portfolio_page (Found [sample_portfolio
      \<lparr> social_links := Some [sample_link ''a''] \<rparr>])"]
  by (simp add: portfolio_page_def init_page_def currentPortfolio_def sample_portfolio_def)


section \<open>Saving the contact information\<close>

text \<open>
  Claim C8, as worded, has \<^verbatim>\<open>saveContactInfo\<close> submit the form unconditionally and then
  leave edit mode and confirm. The handler first looks for the designer document: on a
  page whose designer query returned null it submits nothing, shows nothing and stays in
  edit mode, whatever the backend. And it awaits the mutation without catching its
  failure: with a designer document loaded and a backend that rejects the call, the page
  stays in contact edit mode and no confirmation is shown.
\<close>

theorem saveContactInfo_unloaded_or_rejected_counterexample:
  "designerProfile unloaded_page = Missing \<and>
   mutations (snd (saveContactInfo working_backend unloaded_page)) = [] \<and>
   alerts (snd (saveContactInfo working_backend unloaded_page)) = [] \<and>
   editContact (snd (saveContactInfo working_backend unloaded_page)) \<and>
   designerProfile editing_contact_page = Found (sample_designer None None) \<and>
   saveContactInfo failing_backend editing_contact_page =
     (Failed, editing_contact_page \<lparr> mutations := [UpdateDesigner (DocId 1) ''  '' ''na''] \<rparr>) \<and>
   editContact (snd (saveContactInfo failing_backend editing_contact_page)) \<and>
   alerts (snd (saveContactInfo failing_backend editing_contact_page)) = []"
  by (simp add: saveContactInfo_def working_backend_def failing_backend_def unloaded_page_def
      editing_contact_page_def init_page_def sample_designer_def)

text \<open>
  Claim C8, amended. When a designer document is loaded, \<^verbatim>\<open>saveContactInfo\<close> calls the
  mutation with the document's id and the contact number and address of the form as they
  are, whatever they are. When that call is fulfilled the page leaves contact edit mode
  and the confirmation is shown; when it is rejected or never settles the call is the
  only effect: the edit flag keeps its value and nothing is shown.
\<close>

theorem saveContactInfo_submits:
  assumes "designerProfile st = Found d"
  shows
    "(let call = UpdateDesigner (designer_doc_id d)
                   (form_contact_number (designerForm st)) (form_address (designerForm st))
      in (updateDesigner call = Fulfilled \<longrightarrow>
            saveContactInfo updateDesigner st =
              (Fulfilled,
               st\<lparr> mutations := mutations st @ [call],
                   editContact := False,
                   alerts := alerts st @ [ContactInfoUpdated] \<rparr>)) \<and>
         (updateDesigner call \<noteq> Fulfilled \<longrightarrow>
            saveContactInfo updateDesigner st =
              (updateDesigner call, st\<lparr> mutations := mutations st @ [call] \<rparr>)))"
  using assms by (auto simp: saveContactInfo_def Let_def split: outcome.splits)

text \<open>
  An untouched form, and a form holding blanks and the sentinel, are submitted as they are
  and, the backend accepting them, edit mode is left; with a backend that never answers
  the form is submitted and that is all.
\<close>

theorem saveContactInfo_submits_witness:
  "designerProfile (contact_page None None) = Found (sample_designer None None) \<and>
   designerProfile editing_contact_page = Found (sample_designer None None) \<and>
   saveContactInfo working_backend (contact_page None None) =
     (Fulfilled,
      (contact_page None None)
        \<lparr> mutations := [UpdateDesigner (DocId 1) [] []],
          editContact := False, alerts := [ContactInfoUpdated] \<rparr>) \<and>
   saveContactInfo working_backend editing_contact_page =
     (Fulfilled,
      editing_contact_page
        \<lparr> mutations := [UpdateDesigner (DocId 1) ''  '' ''na''],
          editContact := False, alerts := [ContactInfoUpdated] \<rparr>) \<and>
   saveContactInfo hanging_backend editing_contact_page =
     (Unsettled,
      editing_contact_page \<lparr> mutations := [UpdateDesigner (DocId 1) ''  '' ''na''] \<rparr>)"
  using saveContactInfo_submits
      [of "contact_page None None" "sample_designer None None" working_backend]
    saveContactInfo_submits
      [of editing_contact_page "sample_designer None None" working_backend]
    saveContactInfo_submits
      [of editing_contact_page "sample_designer None None" hanging_backend]
  by (simp add: Let_def working_backend_def hanging_backend_def contact_page_def
      editing_contact_page_def init_page_def sample_designer_def)

text \<open>
  Claim C10. Without the backing document (no designer document for
  \<^verbatim>\<open>saveContactInfo\<close>, no current portfolio document for \<^verbatim>\<open>savePortfolio\<close>) saving returns
  at once with the state of the page as it was, whatever the backend would do: no
  mutation, no alert, the edit flags and the forms unchanged.
\<close>

theorem save_without_record_is_noop:
  "(designerProfile st = Loading \<or> designerProfile st = Missing \<longrightarrow>
      saveContactInfo updateDesigner st = (Fulfilled, st)) \<and>
   (currentPortfolio st = None \<longrightarrow> savePortfolio updatePortfolio st = (Fulfilled, st))"
  by (auto simp: saveContactInfo_def savePortfolio_def)

text \<open>
  A page in both edit modes whose designer query returned null and whose portfolio query
  returned no document, and pages whose queries are still loading.
\<close>

theorem save_without_record_is_noop_witness:
  "designerProfile unloaded_page = Missing \<and> currentPortfolio unloaded_page = None \<and>
   saveContactInfo working_backend unloaded_page = (Fulfilled, unloaded_page) \<and>
   savePortfolio working_backend unloaded_page = (Fulfilled, unloaded_page) \<and>
   saveContactInfo failing_backend (init_page Loading Loading) =
     (Fulfilled, init_page Loading Loading) \<and>
   savePortfolio failing_backend (init_page Loading Missing) =
     (Fulfilled, init_page Loading Missing)"
  using save_without_record_is_noop [of unloaded_page working_backend working_backend]
    save_without_record_is_noop [of "init_page Loading Loading" failing_backend failing_backend]
    save_without_record_is_noop [of "init_page Loading Missing" failing_backend failing_backend]
  by (simp add: unloaded_page_def init_page_def currentPortfolio_def)


section \<open>Rendering the project list\<close>

text \<open>
  Claim C9, as worded, shows the name of the designer whenever one is assigned. The
  fallback is chosen by \<^verbatim>\<open>||\<close>, which also replaces an empty name: a request whose
  assigned designer has the empty name is shown as unassigned.
\<close>

theorem ProjectsSection_empty_name_counterexample:
  "ProjectsSection [sample_project 1 ''Logo shirt'' (Some \<lparr> full_name = [] \<rparr>)] =
     ProjectGrid [\<lparr> card_key = DocId 1, card_title = ''Logo shirt'', card_status = Pending,
                    card_type = ''polo'', card_designer = ''Unassigned'' \<rparr>] \<and>
   designer (sample_project 1 ''Logo shirt'' (Some \<lparr> full_name = [] \<rparr>)) \<noteq> None \<and>
   spec_designer_label (sample_project 1 ''Logo shirt'' (Some \<lparr> full_name = [] \<rparr>)) \<noteq>
     ''Unassigned''"
  by (simp add: ProjectsSection_def card_def designer_label_def spec_designer_label_def
      sample_project_def jsx_text_def)

text \<open>
  Claim C9, amended. An empty collection renders the call to action and no grid. Any
  other collection renders one card for each request, in the order of the collection;
  each card shows the title, the status and the garment type of its request, and the name
  of the assigned designer when there is one with a name that is not empty, the text
  Unassigned otherwise.
\<close>

theorem ProjectsSection_cards:
  "(requests = [] \<longrightarrow> ProjectsSection requests = CallToAction) \<and>
   (requests \<noteq> [] \<longrightarrow>
      (\<exists>cards. ProjectsSection requests = ProjectGrid cards \<and>
         length cards = length requests \<and>
         (\<forall>i < length requests.
            card_title (cards ! i) = request_title (requests ! i) \<and>
            card_status (cards ! i) = status (requests ! i) \<and>
            card_type (cards ! i) = jsx_text (tshirt_type (requests ! i)) \<and>
            card_designer (cards ! i) =
              (case designer (requests ! i) of
                 None \<Rightarrow> ''Unassigned''
               | Some d \<Rightarrow> if full_name d = [] then ''Unassigned'' else full_name d))))"
  by (simp add: ProjectsSection_def card_def designer_label_def)

text \<open>No request; and two requests, the second one without a designer.\<close>

theorem ProjectsSection_cards_witness:
  "ProjectsSection [] = CallToAction \<and>
   (\<exists>cards.
      ProjectsSection [sample_project 1 ''Logo shirt'' (Some \<lparr> full_name = ''Ana Cruz'' \<rparr>),
                       sample_project 2 ''Team jersey'' None] = ProjectGrid cards \<and>
      length cards = 2 \<and>
      card_title (cards ! 0) = ''Logo shirt'' \<and> card_designer (cards ! 0) = ''Ana Cruz'' \<and>
      card_title (cards ! 1) = ''Team jersey'' \<and> card_designer (cards ! 1) = ''Unassigned'' \<and>
      card_status (cards ! 1) = Pending \<and> card_type (cards ! 1) = ''polo'')"
  using ProjectsSection_cards [of "[]"]
    ProjectsSection_cards [of "[sample_project 1 ''Logo shirt'' (Some \<lparr> full_name = ''Ana Cruz'' \<rparr>),
                       sample_project 2 ''Team jersey'' None]"]
  by (auto simp: sample_project_def jsx_text_def numeral_2_eq_2 less_Suc_eq)

end
